theory Spec2Isabelle
  imports Main "HOL-Library.Sublist"
begin

section \<open>Go strings and the library functions the two servers call\<close>

text \<open>
  A Go \<open>string\<close> is a sequence of bytes, modelled as \<^typ>\<open>string\<close> (a list of 8-bit
  characters). \<open>strings.TrimSpace\<close> removes, from both ends, every rune for which
  \<open>unicode.IsSpace\<close> holds. It decodes UTF-8 from the left (\<open>utf8.DecodeRuneInString\<close>)
  and from the right (\<open>utf8.DecodeLastRuneInString\<close>); an ill-formed byte decodes to
  \<open>utf8.RuneError\<close>, which is not a space. A decoded rune is a space exactly when the
  bytes at that end are the (unique, shortest-form) UTF-8 encoding of one of the runes
  below, so trimming strips these byte sequences.
\<close>

definition spaceRunes :: "string list" where
  "spaceRunes =
    [[CHR 0x09], [CHR 0x0A], [CHR 0x0B], [CHR 0x0C], [CHR 0x0D], [CHR 0x20],
     [CHR 0xC2, CHR 0x85], [CHR 0xC2, CHR 0xA0],
     [CHR 0xE1, CHR 0x9A, CHR 0x80],
     [CHR 0xE2, CHR 0x80, CHR 0x80], [CHR 0xE2, CHR 0x80, CHR 0x81],
     [CHR 0xE2, CHR 0x80, CHR 0x82], [CHR 0xE2, CHR 0x80, CHR 0x83],
     [CHR 0xE2, CHR 0x80, CHR 0x84], [CHR 0xE2, CHR 0x80, CHR 0x85],
     [CHR 0xE2, CHR 0x80, CHR 0x86], [CHR 0xE2, CHR 0x80, CHR 0x87],
     [CHR 0xE2, CHR 0x80, CHR 0x88], [CHR 0xE2, CHR 0x80, CHR 0x89],
     [CHR 0xE2, CHR 0x80, CHR 0x8A],
     [CHR 0xE2, CHR 0x80, CHR 0xA8], [CHR 0xE2, CHR 0x80, CHR 0xA9],
     [CHR 0xE2, CHR 0x80, CHR 0xAF],
     [CHR 0xE2, CHR 0x81, CHR 0x9F],
     [CHR 0xE3, CHR 0x80, CHR 0x80]]"

text \<open>Width in bytes of the space rune a string starts with (0 when it starts with none).\<close>

definition leadingSpace :: "string \<Rightarrow> nat" where
  "leadingSpace s =
     (case find (\<lambda>p. prefix p s) spaceRunes of None \<Rightarrow> 0 | Some p \<Rightarrow> length p)"

text \<open>Width in bytes of the space rune a string ends with (0 when it ends with none).\<close>

definition trailingSpace :: "string \<Rightarrow> nat" where
  "trailingSpace s =
     (case find (\<lambda>p. suffix p s) spaceRunes of None \<Rightarrow> 0 | Some p \<Rightarrow> length p)"

function TrimLeftSpace :: "string \<Rightarrow> string" where
  "TrimLeftSpace s =
     (if leadingSpace s = 0 then s else TrimLeftSpace (drop (leadingSpace s) s))"
  by pat_completeness auto
termination
proof (relation "measure length")
  fix s :: string
  assume pos: "leadingSpace s \<noteq> 0"
  have "leadingSpace [] = 0"
    by (simp add: leadingSpace_def spaceRunes_def)
  with pos have "s \<noteq> []" by auto
  with pos show "(drop (leadingSpace s) s, s) \<in> measure length" by simp
qed simp

function TrimRightSpace :: "string \<Rightarrow> string" where
  "TrimRightSpace s =
     (if trailingSpace s = 0 then s
      else TrimRightSpace (take (length s - trailingSpace s) s))"
  by pat_completeness auto
termination
proof (relation "measure length")
  fix s :: string
  assume pos: "trailingSpace s \<noteq> 0"
  have "trailingSpace [] = 0"
    by (simp add: trailingSpace_def spaceRunes_def)
  with pos have "s \<noteq> []" by auto
  with pos show "(take (length s - trailingSpace s) s, s) \<in> measure length" by simp
qed simp

definition TrimSpace :: "string \<Rightarrow> string" where
  "TrimSpace s = TrimRightSpace (TrimLeftSpace s)"

text \<open>
  \<open>strings.SplitN(s, "=", 2)\<close>: at most two pieces, cut at the first \<open>=\<close>; a string
  without \<open>=\<close> comes back as the single piece.
\<close>

definition SplitN2 :: "string \<Rightarrow> string list" where
  "SplitN2 s =
     (if CHR ''='' \<in> set s
      then [takeWhile (\<lambda>c. c \<noteq> CHR ''='') s, tl (dropWhile (\<lambda>c. c \<noteq> CHR ''='') s)]
      else [s])"

text \<open>\<open>fmt.Sprintf("%d", n)\<close>: the decimal numeral of an integer.\<close>

fun digitsOf :: "nat \<Rightarrow> string" where
  "digitsOf n =
     (if n < 10 then [char_of (48 + n)]
      else digitsOf (n div 10) @ [char_of (48 + n mod 10)])"

definition itoa :: "int \<Rightarrow> string" where
  "itoa n = (if n < 0 then CHR ''-'' # digitsOf (nat (- n)) else digitsOf (nat n))"

section \<open>Errors\<close>

text \<open>
  Both programs build their errors with \<open>fmt.Errorf\<close>; each constructor below is one
  such call site (the comment gives its message). The last three wrap the error of a
  validator, as \<open>%w\<close> does.
\<close>

datatype error =
    EmptyCommand                  \<comment> \<open>command must contain at least one element\<close>
  | BlankCommandEntry             \<comment> \<open>command entries cannot be empty\<close>
  | BadEnvEntry string            \<comment> \<open>env entries must be KEY=VALUE, got <entry>\<close>
  | WorkingDirMissing string      \<comment> \<open>working_dir does not exist\<close>
  | WorkingDirNotDir string       \<comment> \<open>working_dir is not a directory\<close>
  | GetwdFailed                   \<comment> \<open>error of \<open>os.Getwd\<close>\<close>
  | AbsFailed                     \<comment> \<open>error of \<open>filepath.Abs\<close>\<close>
  | SerializeFailed               \<comment> \<open>failed to serialize config\<close>
  | MkdirFailed                   \<comment> \<open>failed to create config dir\<close>
  | WriteTempFailed               \<comment> \<open>failed to write temp config\<close>
  | MoveFailed                    \<comment> \<open>failed to move config into place\<close>
  | ReadConfigFailed              \<comment> \<open>failed to read config\<close>
  | ParseConfigFailed             \<comment> \<open>failed to parse config\<close>
  | IndexOutOfRange               \<comment> \<open>run-time panic of \<open>cmdline[0]\<close> on an empty slice\<close>
  | InvalidCommandInConfig error  \<comment> \<open>invalid command in config: ...\<close>
  | InvalidEnvInConfig error      \<comment> \<open>invalid env in config: ...\<close>
  | ExtraArgsError error          \<comment> \<open>extra_args: ...\<close>

text \<open>
  The spec's taxonomy, section 7. ValidationError: malformed command or env entries, an
  empty command, a working directory that is missing or not a directory. IOError: a
  persistence failure during registration.
\<close>

fun isValidationError :: "error \<Rightarrow> bool" where
  "isValidationError EmptyCommand = True"
| "isValidationError BlankCommandEntry = True"
| "isValidationError (BadEnvEntry _) = True"
| "isValidationError (WorkingDirMissing _) = True"
| "isValidationError (WorkingDirNotDir _) = True"
| "isValidationError (ExtraArgsError e) = isValidationError e"
| "isValidationError _ = False"

fun isIOError :: "error \<Rightarrow> bool" where
  "isIOError MkdirFailed = True"
| "isIOError WriteTempFailed = True"
| "isIOError MoveFailed = True"
| "isIOError _ = False"

section \<open>Shared validation (the same text in both programs)\<close>

text \<open>
  \<open>validateCommand\<close> and \<open>validateEnv\<close> are declared twice, once in the registrar and
  once in the verifier, with identical bodies; one definition stands for both. The loop
  over the entries appends to \<open>clean\<close>; a nil and an empty slice are both \<open>[]\<close>.
\<close>

fun validateCommand_loop :: "string list \<Rightarrow> string list \<Rightarrow> error + string list" where
  "validateCommand_loop [] clean = Inr clean"
| "validateCommand_loop (part # rest) clean =
     (let trimmed = TrimSpace part in
      if trimmed = [] then Inl BlankCommandEntry
      else validateCommand_loop rest (clean @ [trimmed]))"

definition validateCommand :: "string list \<Rightarrow> error + string list" where
  "validateCommand command =
     (if length command = 0 then Inl EmptyCommand
      else validateCommand_loop command [])"

fun validateEnv_loop :: "string list \<Rightarrow> string list \<Rightarrow> error + string list" where
  "validateEnv_loop [] clean = Inr clean"
| "validateEnv_loop (entry # rest) clean =
     (let trimmed = TrimSpace entry in
      if trimmed = [] then validateEnv_loop rest clean
      else let parts = SplitN2 trimmed in
        if length parts \<noteq> 2 \<or> parts ! 0 = [] then Inl (BadEnvEntry entry)
        else validateEnv_loop rest (clean @ [trimmed]))"

definition validateEnv :: "string list \<Rightarrow> error + string list" where
  "validateEnv env =
     (if length env = 0 then Inr [] else validateEnv_loop env [])"

section \<open>The persisted configuration and the operating system\<close>

record storedConfig =
  Command :: "string list"
  WorkingDir :: string
  Env :: "string list"
  UpdatedAt :: string

text \<open>
  The contents of a file, up to what \<open>encoding/json\<close> makes of them: either a document
  that \<open>json.Unmarshal\<close> decodes into the given \<open>storedConfig\<close> (absent fields are
  zero values, as \<open>omitempty\<close> leaves them out), or bytes it rejects. The library's
  contract, that a marshalled value of strings and string slices decodes to itself, is
  part of this model; the handlers receive their strings from decoded JSON, so they are
  well-formed UTF-8 and are encoded without loss.
\<close>

datatype filedata = ConfigJSON storedConfig | OtherBytes string

definition MarshalIndent :: "storedConfig \<Rightarrow> error + filedata" where
  "MarshalIndent cfg = Inr (ConfigJSON cfg)"

fun Unmarshal :: "filedata \<Rightarrow> error + storedConfig" where
  "Unmarshal (ConfigJSON cfg) = Inr cfg"
| "Unmarshal (OtherBytes _) = Inl ParseConfigFailed"

text \<open>
  Regular files by path; a file in the map can be read, and \<open>os.ReadFile\<close> fails
  for a path that is not in it. Directories are seen through \<open>os.Stat\<close> only.
\<close>

type_synonym fs = "string \<rightharpoonup> filedata"

datatype stat_result = StatError | StatFile | StatDir

text \<open>
  What the operating system decides for one \<open>writeConfig\<close>: whether each call
  succeeds. \<open>os.WriteFile\<close> can fail before the file is created, or after it was
  created and some of the data (the contents given) was written.
\<close>

datatype write_outcome = WriteOk | WriteFailsUnopened | WriteFailsPartial filedata

record io_faults =
  mkdirAllOk :: bool
  writeFileOutcome :: write_outcome
  renameOk :: bool
  removeDestOk :: bool
  renameRetryOk :: bool
  removeTmpOk :: bool

definition osWriteFile :: "write_outcome \<Rightarrow> string \<Rightarrow> filedata \<Rightarrow> fs \<Rightarrow> bool \<times> fs" where
  "osWriteFile outcome name data f =
     (case outcome of
        WriteOk \<Rightarrow> (True, f(name \<mapsto> data))
      | WriteFailsUnopened \<Rightarrow> (False, f)
      | WriteFailsPartial written \<Rightarrow> (False, f(name \<mapsto> written)))"

definition osRename :: "bool \<Rightarrow> string \<Rightarrow> string \<Rightarrow> fs \<Rightarrow> bool \<times> fs" where
  "osRename ok oldpath newpath f =
     (case f oldpath of
        None \<Rightarrow> (False, f)
      | Some data \<Rightarrow> if ok then (True, (f(newpath \<mapsto> data))(oldpath := None)) else (False, f))"

definition osRemove :: "bool \<Rightarrow> string \<Rightarrow> fs \<Rightarrow> bool \<times> fs" where
  "osRemove ok name f =
     (if ok \<and> f name \<noteq> None then (True, f(name := None)) else (False, f))"

text \<open>A process request, as \<open>exec.CommandContext\<close> and the fields set on it describe it.\<close>

record exec_request =
  reqPath :: string
  reqArgs :: "string list"
  reqDir :: string
  reqEnv :: "string list option"
  reqTimeoutSeconds :: int

datatype wait_error = ExitError int | OtherError string

record wait_info =
  waitErr :: "wait_error option"
  processState :: "int option"
  deadlineExceeded :: bool
  outStdout :: string
  outStderr :: string
  elapsedMs :: int

datatype proc_outcome = StartFailed string int | Started wait_info

record os_env =
  getenvConfig :: string
  getwd :: "string option"
  absPath :: "string \<Rightarrow> string option"
  stat :: "string \<Rightarrow> stat_result"
  now :: string
  environ :: "string list"
  faults :: io_faults
  spawn :: "exec_request \<Rightarrow> proc_outcome"

definition osReadFile :: "fs \<Rightarrow> string \<Rightarrow> filedata option" where
  "osReadFile f name = f name"

text \<open>
  \<open>configPath\<close> (the same text in both programs). \<open>filepath.Join\<close> of the working
  directory with the two fixed elements is written as the concatenation;
  \<open>filepath.Abs\<close>, which cleans the path, is the system's.
\<close>

definition configPath :: "os_env \<Rightarrow> error + string" where
  "configPath w =
     (let path = TrimSpace (getenvConfig w) in
      case (if path = []
            then (case getwd w of
                    None \<Rightarrow> Inl GetwdFailed
                  | Some cwd \<Rightarrow> Inr (cwd @ ''/.test-verifier/command.json''))
            else Inr path) of
        Inl e \<Rightarrow> Inl e
      | Inr p \<Rightarrow> (case absPath w p of None \<Rightarrow> Inl AbsFailed | Some a \<Rightarrow> Inr a))"

section \<open>The registrar\<close>

record registerArgs =
  argCommand :: "string list"
  argWorkingDir :: string
  argEnv :: "string list"

record registerResult =
  regConfigPath :: string
  regCommand :: "string list"
  regWorkingDir :: string
  regEnv :: "string list"
  regUpdatedAt :: string
  regMessage :: string

record call_tool_result =
  IsError :: bool
  Text :: string

text \<open>
  \<open>writeConfig\<close>: serialise, create the directory, write the sibling temporary file,
  rename it over the target; when the rename fails, remove the target and rename once
  more; when that fails too, remove the temporary file and report the first error.
\<close>

definition writeConfig :: "io_faults \<Rightarrow> string \<Rightarrow> storedConfig \<Rightarrow> fs \<Rightarrow> error option \<times> fs" where
  "writeConfig io path cfg f =
     (case MarshalIndent cfg of
        Inl _ \<Rightarrow> (Some SerializeFailed, f)
      | Inr data \<Rightarrow>
          if \<not> mkdirAllOk io then (Some MkdirFailed, f)
          else
            let tmp = path @ ''.tmp'';
                (written, f1) = osWriteFile (writeFileOutcome io) tmp data f
            in if \<not> written then (Some WriteTempFailed, f1)
               else
                 let (renamed, f2) = osRename (renameOk io) tmp path f1
                 in if renamed then (None, f2)
                    else
                      let (_, f3) = osRemove (removeDestOk io) path f2;
                          (renamedAgain, f4) = osRename (renameRetryOk io) tmp path f3
                      in if renamedAgain then (None, f4)
                         else
                           let (_, f5) = osRemove (removeTmpOk io) tmp f4
                           in (Some MoveFailed, f5))"

definition registeredMessage :: string where
  "registeredMessage = ''Test command registered. The test-verifier MCP can now run tests.''"

text \<open>
  The handler of \<open>register_test_command\<close>. It returns the file system it leaves and
  either the error or the tool result with the structured result.
\<close>

definition register ::
  "os_env \<Rightarrow> fs \<Rightarrow> registerArgs \<Rightarrow> fs \<times> (error + call_tool_result \<times> registerResult)" where
  "register w f args =
     (case validateCommand (argCommand args) of
        Inl e \<Rightarrow> (f, Inl e)
      | Inr command \<Rightarrow>
     (case validateEnv (argEnv args) of
        Inl e \<Rightarrow> (f, Inl e)
      | Inr env \<Rightarrow>
     (if argWorkingDir args \<noteq> [] \<and> stat w (argWorkingDir args) = StatError
        then (f, Inl (WorkingDirMissing (argWorkingDir args)))
      else if argWorkingDir args \<noteq> [] \<and> stat w (argWorkingDir args) \<noteq> StatDir
        then (f, Inl (WorkingDirNotDir (argWorkingDir args)))
      else
     (case configPath w of
        Inl e \<Rightarrow> (f, Inl e)
      | Inr cfgPath \<Rightarrow>
          let cfg = \<lparr>Command = command, WorkingDir = argWorkingDir args,
                     Env = env, UpdatedAt = now w\<rparr>
          in (case writeConfig (faults w) cfgPath cfg f of
                (Some e, f') \<Rightarrow> (f', Inl e)
              | (None, f') \<Rightarrow>
                  (f', Inr (\<lparr>IsError = False, Text = registeredMessage\<rparr>,
                            \<lparr>regConfigPath = cfgPath, regCommand = Command cfg,
                             regWorkingDir = WorkingDir cfg, regEnv = Env cfg,
                             regUpdatedAt = UpdatedAt cfg,
                             regMessage = registeredMessage\<rparr>)))))))"

section \<open>The verifier\<close>

record runArgs =
  ExtraArgs :: "string list"
  TimeoutSeconds :: int
  ArgsEnv :: "string list"

record runResult =
  resConfigPath :: string
  resCommand :: "string list"
  resWorkingDir :: string
  ExitCode :: int
  DurationMs :: int
  Stdout :: string
  Stderr :: string
  Success :: bool
  TimedOut :: bool
  Error :: string
  resUpdatedAt :: string

definition defaultTimeoutSeconds :: int where
  "defaultTimeoutSeconds = 600"

definition loadConfig :: "os_env \<Rightarrow> fs \<Rightarrow> error + storedConfig \<times> string" where
  "loadConfig w f =
     (case configPath w of
        Inl e \<Rightarrow> Inl e
      | Inr path \<Rightarrow>
     (case osReadFile f path of
        None \<Rightarrow> Inl ReadConfigFailed
      | Some data \<Rightarrow>
     (case Unmarshal data of
        Inl _ \<Rightarrow> Inl ParseConfigFailed
      | Inr cfg \<Rightarrow>
     (case validateCommand (Command cfg) of
        Inl e \<Rightarrow> Inl (InvalidCommandInConfig e)
      | Inr command \<Rightarrow>
     (case validateEnv (Env cfg) of
        Inl e \<Rightarrow> Inl (InvalidEnvInConfig e)
      | Inr env \<Rightarrow>
          if WorkingDir cfg \<noteq> [] \<and> stat w (WorkingDir cfg) = StatError
            then Inl (WorkingDirMissing (WorkingDir cfg))
          else if WorkingDir cfg \<noteq> [] \<and> stat w (WorkingDir cfg) \<noteq> StatDir
            then Inl (WorkingDirNotDir (WorkingDir cfg))
          else Inr (cfg\<lparr>Command := command, Env := env\<rparr>, path))))))"

text \<open>The timeout in force: the caller's when positive, the default otherwise.\<close>

definition effectiveTimeout :: "int \<Rightarrow> int" where
  "effectiveTimeout timeoutSeconds =
     (if timeoutSeconds \<le> 0 then defaultTimeoutSeconds else timeoutSeconds)"

text \<open>The result returned when \<open>cmd.Start\<close> fails; nothing was captured.\<close>

definition startFailure ::
  "string \<Rightarrow> string list \<Rightarrow> storedConfig \<Rightarrow> string \<Rightarrow> int \<Rightarrow> call_tool_result \<times> runResult" where
  "startFailure cfgPath cmdline cfg msg ms =
     (\<lparr>IsError = True, Text = msg\<rparr>,
      \<lparr>resConfigPath = cfgPath, resCommand = cmdline, resWorkingDir = WorkingDir cfg,
       ExitCode = - 1, DurationMs = ms, Stdout = [], Stderr = [],
       Success = False, TimedOut = False, Error = msg, resUpdatedAt = UpdatedAt cfg\<rparr>)"

text \<open>The classification after \<open>cmd.Wait\<close>, from the result initialised as a success.\<close>

definition classify :: "int \<Rightarrow> wait_info \<Rightarrow> runResult \<Rightarrow> runResult" where
  "classify timeoutSeconds wi result =
     (case waitErr wi of
        Some err \<Rightarrow>
          let r1 = result\<lparr>Success := False\<rparr>;
              r2 = (if deadlineExceeded wi
                    then r1\<lparr>TimedOut := True,
                            Error := ''timed out after '' @ itoa timeoutSeconds @ '' seconds''\<rparr>
                    else r1)
          in (case err of
                ExitError code \<Rightarrow> r2\<lparr>ExitCode := code\<rparr>
              | OtherError msg \<Rightarrow>
                  let r3 = r2\<lparr>ExitCode := - 1\<rparr>
                  in if Error r3 = [] then r3\<lparr>Error := msg\<rparr> else r3)
      | None \<Rightarrow>
          (case processState wi of
             Some code \<Rightarrow>
               let r1 = result\<lparr>ExitCode := code\<rparr>
               in if ExitCode r1 \<noteq> 0 then r1\<lparr>Success := False\<rparr> else r1
           | None \<Rightarrow> result))"

definition summaryOf :: "int \<Rightarrow> runResult \<Rightarrow> string" where
  "summaryOf timeoutSeconds result =
     (if TimedOut result
        then ''Test run timed out after '' @ itoa timeoutSeconds @ '' seconds.''
      else if \<not> Success result \<and> ExitCode result = - 1 \<and> Error result \<noteq> []
        then ''Test run failed to start: '' @ Error result
      else ''Test run finished with exit code '' @ itoa (ExitCode result) @ ''.'')"

definition toolResultOf :: "int \<Rightarrow> runResult \<Rightarrow> call_tool_result" where
  "toolResultOf timeoutSeconds result =
     \<lparr>IsError = (ExitCode result = - 1 \<and> Error result \<noteq> []),
      Text = summaryOf timeoutSeconds result\<rparr>"

text \<open>
  The handler of \<open>run_tests\<close>, in two parts. \<open>prepareRun\<close> is the handler up to the
  point where the command is started: it loads the configuration, validates the extra
  arguments and the per-run environment, fixes the timeout and builds the request.
  \<open>run\<close> hands the request to the operating system and classifies the outcome.
  Besides the tool result and the structured result, \<open>run\<close> returns the request, which
  is its effect.
\<close>

definition prepareRun ::
  "os_env \<Rightarrow> fs \<Rightarrow> runArgs \<Rightarrow> error + storedConfig \<times> string \<times> exec_request" where
  "prepareRun w f args =
     (case loadConfig w f of
        Inl e \<Rightarrow> Inl e
      | Inr (cfg, cfgPath) \<Rightarrow>
     (case (case validateCommand (ExtraArgs args) of
              Inl e \<Rightarrow> if length (ExtraArgs args) > 0 then Inl (ExtraArgsError e) else Inr []
            | Inr validated \<Rightarrow> Inr validated) of
        Inl e \<Rightarrow> Inl e
      | Inr extraArgs \<Rightarrow>
     (let cmdline = (if length extraArgs > 0 then Command cfg @ extraArgs else Command cfg) in
      case validateEnv (ArgsEnv args) of
        Inl e \<Rightarrow> Inl e
      | Inr runEnv \<Rightarrow>
     (let timeoutSeconds = effectiveTimeout (TimeoutSeconds args) in
      case cmdline of
        [] \<Rightarrow> Inl IndexOutOfRange
      | name # _ \<Rightarrow>
          Inr (cfg, cfgPath,
               \<lparr>reqPath = name, reqArgs = cmdline, reqDir = WorkingDir cfg,
                reqEnv = (if length (Env cfg) > 0 \<or> length runEnv > 0
                          then Some (environ w @ Env cfg @ runEnv) else None),
                reqTimeoutSeconds = timeoutSeconds\<rparr>)))))"

definition run ::
  "os_env \<Rightarrow> fs \<Rightarrow> runArgs \<Rightarrow> error + exec_request \<times> call_tool_result \<times> runResult" where
  "run w f args =
     (case prepareRun w f args of
        Inl e \<Rightarrow> Inl e
      | Inr (cfg, cfgPath, req) \<Rightarrow>
          (case spawn w req of
             StartFailed msg ms \<Rightarrow>
               Inr (req, startFailure cfgPath (reqArgs req) cfg msg ms)
           | Started wi \<Rightarrow>
               let result = classify (reqTimeoutSeconds req) wi
                     \<lparr>resConfigPath = cfgPath, resCommand = reqArgs req,
                      resWorkingDir = WorkingDir cfg, ExitCode = 0,
                      DurationMs = elapsedMs wi, Stdout = outStdout wi,
                      Stderr = outStderr wi, Success = True, TimedOut = False,
                      Error = [], resUpdatedAt = UpdatedAt cfg\<rparr>
               in Inr (req, toolResultOf (reqTimeoutSeconds req) result, result)))"

text \<open>
  The environment the child process sees: \<open>cmd.Env\<close>, or the parent's when it is nil.
  Where a key occurs more than once, \<open>os/exec\<close> uses the last entry for that key;
  \<open>childGetenv\<close> reads a variable that way.
\<close>

definition childEnv :: "os_env \<Rightarrow> exec_request \<Rightarrow> string list" where
  "childEnv w req = (case reqEnv req of None \<Rightarrow> environ w | Some env \<Rightarrow> env)"

definition envKey :: "string \<Rightarrow> string option" where
  "envKey entry =
     (if CHR ''='' \<in> set entry then Some (takeWhile (\<lambda>c. c \<noteq> CHR ''='') entry) else None)"

definition envValue :: "string \<Rightarrow> string" where
  "envValue entry = tl (dropWhile (\<lambda>c. c \<noteq> CHR ''='') entry)"

fun childGetenv :: "string \<Rightarrow> string list \<Rightarrow> string option" where
  "childGetenv key [] = None"
| "childGetenv key (entry # rest) =
     (case childGetenv key rest of
        Some v \<Rightarrow> Some v
      | None \<Rightarrow> if envKey entry = Some key then Some (envValue entry) else None)"

text \<open>
  The spec's \<open>KEY=VALUE\<close>: a non-empty key, the separator, and a value that may be
  empty (and may itself contain \<open>=\<close>, since the entry is cut once, at the first one).
\<close>

definition keyValueEntry :: "string \<Rightarrow> bool" where
  "keyValueEntry t = (CHR ''='' \<in> set t \<and> takeWhile (\<lambda>c. c \<noteq> CHR ''='') t \<noteq> [])"

section \<open>A concrete system, for evaluating the operations\<close>

definition noFaults :: io_faults where
  "noFaults = \<lparr>mkdirAllOk = True, writeFileOutcome = WriteOk, renameOk = True,
               removeDestOk = True, renameRetryOk = True, removeTmpOk = True\<rparr>"

text \<open>
  A machine whose only directory of interest is \<open>/work\<close>, with the configuration
  path set through the environment variable, and on which every command is killed at
  its deadline.
\<close>

definition demoSpawn :: "exec_request \<Rightarrow> proc_outcome" where
  "demoSpawn req =
     (if reqPath req = ''false_command_that_does_not_exist''
      then StartFailed ''exec: not found'' 1
      else Started \<lparr>waitErr = Some (ExitError (- 1)), processState = Some (- 1),
                    deadlineExceeded = True, outStdout = ''partial'', outStderr = [],
                    elapsedMs = 2000\<rparr>)"

definition demoOS :: os_env where
  "demoOS = \<lparr>getenvConfig = ''/cfg/command.json'', getwd = Some ''/work'',
             absPath = Some,
             stat = (\<lambda>p. if p = ''/work'' then StatDir else StatError),
             now = ''2026-01-01T00:00:00Z'',
             environ = [''PATH=/bin'', ''MODE=parent''],
             faults = noFaults, spawn = demoSpawn\<rparr>"

definition oldConfig :: storedConfig where
  "oldConfig = \<lparr>Command = [''make'', ''test''], WorkingDir = [], Env = [],
                 UpdatedAt = ''2025-12-31T00:00:00Z''\<rparr>"

definition demoFS :: fs where
  "demoFS = [''/cfg/command.json'' \<mapsto> ConfigJSON oldConfig]"

definition demoRegister :: registerArgs where
  "demoRegister = \<lparr>argCommand = ['' go '', ''test''], argWorkingDir = ''/work'',
                    argEnv = ['' MODE=config '', ''  '', ''K=a=b'']\<rparr>"

definition demoRun :: runArgs where
  "demoRun = \<lparr>ExtraArgs = ['' -v ''], TimeoutSeconds = 2, ArgsEnv = [''MODE=run'']\<rparr>"

definition renameFaults :: io_faults where
  "renameFaults = noFaults\<lparr>renameOk := False, renameRetryOk := False\<rparr>"

definition lockedFaults :: io_faults where
  "lockedFaults = renameFaults\<lparr>removeDestOk := False\<rparr>"

definition badEnvRegister :: registerArgs where
  "badEnvRegister = \<lparr>argCommand = [''echo''], argWorkingDir = [], argEnv = [''novalue'']\<rparr>"

definition registeredFS :: fs where
  "registeredFS = fst (register demoOS demoFS demoRegister)"

definition demoResult :: registerResult where
  "demoResult = \<lparr>regConfigPath = ''/cfg/command.json'', regCommand = [''go'', ''test''],
                  regWorkingDir = ''/work'', regEnv = [''MODE=config'', ''K=a=b''],
                  regUpdatedAt = ''2026-01-01T00:00:00Z'',
                  regMessage = registeredMessage\<rparr>"

definition demoStored :: storedConfig where
  "demoStored = \<lparr>Command = [''go'', ''test''], WorkingDir = ''/work'',
                  Env = [''MODE=config'', ''K=a=b''],
                  UpdatedAt = ''2026-01-01T00:00:00Z''\<rparr>"

definition demoRequest :: exec_request where
  "demoRequest = \<lparr>reqPath = ''go'', reqArgs = [''go'', ''test'', ''-v''],
                   reqDir = ''/work'',
                   reqEnv = Some [''PATH=/bin'', ''MODE=parent'', ''MODE=config'', ''K=a=b'',
                                  ''MODE=run''],
                   reqTimeoutSeconds = 2\<rparr>"

definition plainRun :: runArgs where
  "plainRun = \<lparr>ExtraArgs = [], TimeoutSeconds = 0, ArgsEnv = []\<rparr>"

definition missingStored :: storedConfig where
  "missingStored = \<lparr>Command = [''false_command_that_does_not_exist''], WorkingDir = [],
                     Env = [], UpdatedAt = ''2026-01-01T00:00:00Z''\<rparr>"

definition missingFS :: fs where
  "missingFS = [''/cfg/command.json'' \<mapsto> ConfigJSON missingStored]"

definition missingRequest :: exec_request where
  "missingRequest = \<lparr>reqPath = ''false_command_that_does_not_exist'',
                      reqArgs = [''false_command_that_does_not_exist''],
                      reqDir = [], reqEnv = None, reqTimeoutSeconds = 600\<rparr>"

section \<open>Properties of the library functions\<close>

declare TrimLeftSpace.simps [simp del]
declare TrimRightSpace.simps [simp del]

lemma spaceRunes_nonempty: "p \<in> set spaceRunes \<Longrightarrow> p \<noteq> []"
  by (auto simp: spaceRunes_def)

lemma leadingSpace_0_iff: "leadingSpace s = 0 \<longleftrightarrow> (\<forall>p\<in>set spaceRunes. \<not> prefix p s)"
proof (cases "find (\<lambda>p. prefix p s) spaceRunes")
  case None
  then have "leadingSpace s = 0"
    by (simp add: leadingSpace_def)
  moreover from None have "\<forall>p\<in>set spaceRunes. \<not> prefix p s"
    by (simp add: find_None_iff)
  ultimately show ?thesis by simp
next
  case (Some p)
  then have mem: "p \<in> set spaceRunes" and hit: "prefix p s"
    by (auto simp: find_Some_iff)
  from Some have "leadingSpace s = length p"
    by (simp add: leadingSpace_def)
  with spaceRunes_nonempty [OF mem] have "leadingSpace s \<noteq> 0"
    by simp
  moreover from mem hit have "\<not> (\<forall>p\<in>set spaceRunes. \<not> prefix p s)"
    by blast
  ultimately show ?thesis by simp
qed

lemma trailingSpace_0_iff: "trailingSpace s = 0 \<longleftrightarrow> (\<forall>p\<in>set spaceRunes. \<not> suffix p s)"
proof (cases "find (\<lambda>p. suffix p s) spaceRunes")
  case None
  then have "trailingSpace s = 0"
    by (simp add: trailingSpace_def)
  moreover from None have "\<forall>p\<in>set spaceRunes. \<not> suffix p s"
    by (simp add: find_None_iff)
  ultimately show ?thesis by simp
next
  case (Some p)
  then have mem: "p \<in> set spaceRunes" and hit: "suffix p s"
    by (auto simp: find_Some_iff)
  from Some have "trailingSpace s = length p"
    by (simp add: trailingSpace_def)
  with spaceRunes_nonempty [OF mem] have "trailingSpace s \<noteq> 0"
    by simp
  moreover from mem hit have "\<not> (\<forall>p\<in>set spaceRunes. \<not> suffix p s)"
    by blast
  ultimately show ?thesis by simp
qed

lemma leadingSpace_TrimLeftSpace: "leadingSpace (TrimLeftSpace s) = 0"
proof (induction s rule: TrimLeftSpace.induct)
  case (1 s)
  then show ?case by (subst TrimLeftSpace.simps) simp
qed

lemma trailingSpace_TrimRightSpace: "trailingSpace (TrimRightSpace s) = 0"
proof (induction s rule: TrimRightSpace.induct)
  case (1 s)
  then show ?case by (subst TrimRightSpace.simps) simp
qed

lemma TrimLeftSpace_id: "leadingSpace s = 0 \<Longrightarrow> TrimLeftSpace s = s"
  by (subst TrimLeftSpace.simps) simp

lemma TrimRightSpace_id: "trailingSpace s = 0 \<Longrightarrow> TrimRightSpace s = s"
  by (subst TrimRightSpace.simps) simp

lemma TrimRightSpace_prefix: "prefix (TrimRightSpace s) s"
proof (induction s rule: TrimRightSpace.induct)
  case (1 s)
  show ?case
  proof (cases "trailingSpace s = 0")
    case True
    then show ?thesis by (simp add: TrimRightSpace_id)
  next
    case False
    with 1 have "prefix (TrimRightSpace (take (length s - trailingSpace s) s))
                        (take (length s - trailingSpace s) s)"
      by simp
    moreover have "prefix (take (length s - trailingSpace s) s) s"
      by (rule take_is_prefix)
    ultimately have "prefix (TrimRightSpace (take (length s - trailingSpace s) s)) s"
      by (rule prefix_order.trans)
    with False show ?thesis by (subst TrimRightSpace.simps) simp
  qed
qed

lemma leadingSpace_prefix:
  assumes "prefix t s" and "leadingSpace s = 0"
  shows "leadingSpace t = 0"
  using assms unfolding leadingSpace_0_iff
  by (meson prefix_order.trans)

lemma TrimSpace_clean:
  "leadingSpace (TrimSpace s) = 0" "trailingSpace (TrimSpace s) = 0"
  unfolding TrimSpace_def
  by (rule leadingSpace_prefix [OF TrimRightSpace_prefix leadingSpace_TrimLeftSpace])
     (rule trailingSpace_TrimRightSpace)

lemma TrimSpace_fixed: "leadingSpace s = 0 \<Longrightarrow> trailingSpace s = 0 \<Longrightarrow> TrimSpace s = s"
  by (simp add: TrimSpace_def TrimLeftSpace_id TrimRightSpace_id)

lemma TrimSpace_idem: "TrimSpace (TrimSpace s) = TrimSpace s"
  by (rule TrimSpace_fixed) (rule TrimSpace_clean)+

section \<open>Properties of the validators\<close>

lemma validateCommand_loop_eq:
  "validateCommand_loop xs clean =
     (if \<exists>x\<in>set xs. TrimSpace x = [] then Inl BlankCommandEntry
      else Inr (clean @ map TrimSpace xs))"
  by (induction xs arbitrary: clean) (auto simp: Let_def)

lemma validateCommand_eq:
  "validateCommand xs =
     (if xs = [] then Inl EmptyCommand
      else if \<exists>x\<in>set xs. TrimSpace x = [] then Inl BlankCommandEntry
      else Inr (map TrimSpace xs))"
  by (simp add: validateCommand_def validateCommand_loop_eq)

lemma validateEnv_loop_eq:
  "validateEnv_loop es clean =
     (case find (\<lambda>e. TrimSpace e \<noteq> [] \<and> \<not> keyValueEntry (TrimSpace e)) es of
        None \<Rightarrow> Inr (clean @ filter (\<lambda>t. t \<noteq> []) (map TrimSpace es))
      | Some e \<Rightarrow> Inl (BadEnvEntry e))"
  by (induction es arbitrary: clean)
     (auto simp: Let_def SplitN2_def keyValueEntry_def split: option.splits)

lemma validateEnv_eq:
  "validateEnv es =
     (case find (\<lambda>e. TrimSpace e \<noteq> [] \<and> \<not> keyValueEntry (TrimSpace e)) es of
        None \<Rightarrow> Inr (filter (\<lambda>t. t \<noteq> []) (map TrimSpace es))
      | Some e \<Rightarrow> Inl (BadEnvEntry e))"
  by (cases es) (simp_all add: validateEnv_def validateEnv_loop_eq split: option.splits)

lemma keyValueEntry_iff:
  "keyValueEntry t \<longleftrightarrow>
     (\<exists>key value. t = key @ ''='' @ value \<and> key \<noteq> [] \<and> CHR ''='' \<notin> set key)"
proof
  assume kv: "keyValueEntry t"
  let ?P = "\<lambda>c. c \<noteq> CHR ''=''"
  from kv have "dropWhile ?P t \<noteq> []"
    by (auto simp: keyValueEntry_def)
  then have "dropWhile ?P t = CHR ''='' # tl (dropWhile ?P t)"
    using hd_dropWhile [of ?P t] by (cases "dropWhile ?P t") auto
  then have "t = takeWhile ?P t @ ''='' @ tl (dropWhile ?P t)"
    using takeWhile_dropWhile_id [of ?P t] by simp
  moreover from kv have "takeWhile ?P t \<noteq> []"
    by (simp add: keyValueEntry_def)
  moreover have "CHR ''='' \<notin> set (takeWhile ?P t)"
    by (auto dest: set_takeWhileD)
  ultimately show "\<exists>key value. t = key @ ''='' @ value \<and> key \<noteq> [] \<and> CHR ''='' \<notin> set key"
    by blast
next
  assume "\<exists>key value. t = key @ ''='' @ value \<and> key \<noteq> [] \<and> CHR ''='' \<notin> set key"
  then obtain key "value" where t: "t = key @ ''='' @ value" and k: "key \<noteq> []"
    and nk: "CHR ''='' \<notin> set key" by blast
  from nk have "takeWhile (\<lambda>c. c \<noteq> CHR ''='') t = key"
    unfolding t by (subst takeWhile_append2) auto
  with k t show "keyValueEntry t"
    by (simp add: keyValueEntry_def)
qed

lemma validateCommand_fixed:
  assumes "validateCommand xs = Inr ys"
  shows "validateCommand ys = Inr ys"
  using assms by (auto simp: validateCommand_eq TrimSpace_idem split: if_splits)

lemma validateEnv_fixed:
  assumes "validateEnv es = Inr ys"
  shows "validateEnv ys = Inr ys"
proof -
  let ?bad = "\<lambda>e. TrimSpace e \<noteq> [] \<and> \<not> keyValueEntry (TrimSpace e)"
  from assms have none: "find ?bad es = None"
    and ys: "ys = filter (\<lambda>t. t \<noteq> []) (map TrimSpace es)"
    by (auto simp: validateEnv_eq split: option.splits)
  have fixed: "TrimSpace y = y" and good: "y \<noteq> []" "keyValueEntry y" if "y \<in> set ys" for y
    using that none unfolding ys by (auto simp: find_None_iff TrimSpace_idem)
  have "find ?bad ys = None"
    using fixed good by (auto simp: find_None_iff)
  moreover have "map TrimSpace ys = ys"
    using fixed by (simp add: map_idI)
  moreover have "filter (\<lambda>t. t \<noteq> []) ys = ys"
    using good by (simp add: filter_id_conv)
  ultimately show ?thesis
    by (simp add: validateEnv_eq)
qed

section \<open>Properties of the persistence step\<close>

lemma tmp_differs: "path @ ''.tmp'' \<noteq> path"
  by simp

lemma writeConfig_succeeds:
  assumes "writeConfig io path cfg f = (None, f')"
  shows "f' path = Some (ConfigJSON cfg)"
  using assms
  by (cases "writeFileOutcome io")
     (auto simp: writeConfig_def MarshalIndent_def osWriteFile_def osRename_def osRemove_def
                 Let_def split: if_splits)

lemma writeConfig_fails:
  assumes "writeConfig io path cfg f = (Some e, f')"
  shows "(e = MkdirFailed \<and> f' = f) \<or>
         (e = WriteTempFailed \<and> f' path = f path) \<or>
         (e = MoveFailed \<and> f' path = (if removeDestOk io then None else f path)
            \<and> (removeTmpOk io \<longrightarrow> f' (path @ ''.tmp'') = None))"
  using assms
  by (cases "writeFileOutcome io")
     (auto simp: writeConfig_def MarshalIndent_def osWriteFile_def osRename_def osRemove_def
                 Let_def split: if_splits)

section \<open>Properties of the registrar\<close>

lemma register_success:
  assumes "register w f a = (f', Inr (tr, res))"
  shows "configPath w = Inr (regConfigPath res)"
    and "validateCommand (argCommand a) = Inr (regCommand res)"
    and "validateEnv (argEnv a) = Inr (regEnv res)"
    and "regWorkingDir res = argWorkingDir a"
    and "argWorkingDir a = [] \<or> stat w (argWorkingDir a) = StatDir"
    and "regUpdatedAt res = now w"
    and "f' (regConfigPath res) =
           Some (ConfigJSON \<lparr>Command = regCommand res, WorkingDir = regWorkingDir res,
                             Env = regEnv res, UpdatedAt = regUpdatedAt res\<rparr>)"
    and "\<not> IsError tr"
  using assms
  by (auto simp: register_def Let_def dest: writeConfig_succeeds
           split: sum.splits if_splits option.splits prod.splits)

lemma register_failure:
  assumes "register w f a = (f', Inl e)"
  shows "(validateCommand (argCommand a) = Inl e \<and> f' = f) \<or>
         (\<exists>c. validateCommand (argCommand a) = Inr c \<and>
            ((validateEnv (argEnv a) = Inl e \<and> f' = f) \<or>
             (e = WorkingDirMissing (argWorkingDir a) \<and> f' = f) \<or>
             (e = WorkingDirNotDir (argWorkingDir a) \<and> f' = f) \<or>
             (configPath w = Inl e \<and> f' = f) \<or>
             (\<exists>p cfg. configPath w = Inr p \<and> writeConfig (faults w) p cfg f = (Some e, f'))))"
  using assms
  by (auto simp: register_def Let_def
           split: sum.splits if_splits option.splits prod.splits)

lemma validateCommand_errors:
  "validateCommand xs = Inl e \<Longrightarrow> e = EmptyCommand \<or> e = BlankCommandEntry"
  by (auto simp: validateCommand_eq split: if_splits)

lemma validateEnv_errors:
  "validateEnv xs = Inl e \<Longrightarrow> \<exists>entry. e = BadEnvEntry entry"
  by (auto simp: validateEnv_eq split: option.splits)

lemma configPath_errors:
  "configPath w = Inl e \<Longrightarrow> e = GetwdFailed \<or> e = AbsFailed"
  by (auto simp: configPath_def Let_def split: option.splits if_splits sum.splits)

lemma writeConfig_errors:
  "writeConfig io p cfg f = (Some e, f') \<Longrightarrow> isIOError e"
  by (drule writeConfig_fails) auto

lemma isIOError_not_validation: "isIOError e \<Longrightarrow> \<not> isValidationError e"
  by (cases e) auto

section \<open>Properties of the verifier\<close>

lemma Unmarshal_Inr [simp]: "Unmarshal d = Inr c \<longleftrightarrow> d = ConfigJSON c"
  by (cases d) auto

lemma loadConfig_Inr:
  assumes "loadConfig w f = Inr (cfg, p)"
  shows "configPath w = Inr p"
    and "\<exists>stored. f p = Some (ConfigJSON stored)
           \<and> validateCommand (Command stored) = Inr (Command cfg)
           \<and> validateEnv (Env stored) = Inr (Env cfg)
           \<and> WorkingDir cfg = WorkingDir stored \<and> UpdatedAt cfg = UpdatedAt stored"
    and "Command cfg \<noteq> []"
    and "WorkingDir cfg = [] \<or> stat w (WorkingDir cfg) = StatDir"
proof -
  from assms obtain stored command env where
    p: "configPath w = Inr p" and stored: "f p = Some (ConfigJSON stored)"
    and c: "validateCommand (Command stored) = Inr command"
    and e: "validateEnv (Env stored) = Inr env"
    and cfg: "cfg = stored\<lparr>Command := command, Env := env\<rparr>"
    and dir: "WorkingDir stored = [] \<or> stat w (WorkingDir stored) = StatDir"
    by (auto simp: loadConfig_def osReadFile_def
             split: sum.splits option.splits if_splits)
  show "configPath w = Inr p" by (rule p)
  from stored c e cfg
  show "\<exists>stored. f p = Some (ConfigJSON stored)
           \<and> validateCommand (Command stored) = Inr (Command cfg)
           \<and> validateEnv (Env stored) = Inr (Env cfg)
           \<and> WorkingDir cfg = WorkingDir stored \<and> UpdatedAt cfg = UpdatedAt stored"
    by simp
  from c cfg show "Command cfg \<noteq> []"
    by (auto simp: validateCommand_eq split: if_splits)
  from dir cfg show "WorkingDir cfg = [] \<or> stat w (WorkingDir cfg) = StatDir"
    by simp
qed

lemma loadConfig_errors:
  "loadConfig w f = Inl e \<Longrightarrow> \<forall>e'. e \<noteq> ExtraArgsError e'"
  by (auto simp: loadConfig_def osReadFile_def
           dest: configPath_errors
           split: sum.splits option.splits filedata.splits if_splits)

lemma loadConfig_fixed:
  assumes "configPath v = Inr p" and "g p = Some (ConfigJSON cfg)"
    and "validateCommand (Command cfg) = Inr (Command cfg)"
    and "validateEnv (Env cfg) = Inr (Env cfg)"
    and "WorkingDir cfg = [] \<or> stat v (WorkingDir cfg) = StatDir"
  shows "loadConfig v g = Inr (cfg, p)"
  using assms by (auto simp: loadConfig_def osReadFile_def)

lemma prepareRun_Inr:
  assumes "prepareRun w f a = Inr (cfg, p, req)"
  shows "loadConfig w f = Inr (cfg, p)"
    and "reqArgs req = Command cfg @
           (case validateCommand (ExtraArgs a) of Inl _ \<Rightarrow> [] | Inr extra \<Rightarrow> extra)"
    and "\<exists>runEnv. validateEnv (ArgsEnv a) = Inr runEnv"
    and "\<And>runEnv. validateEnv (ArgsEnv a) = Inr runEnv \<Longrightarrow>
           reqEnv req = (if Env cfg \<noteq> [] \<or> runEnv \<noteq> []
                         then Some (environ w @ Env cfg @ runEnv) else None)"
    and "reqPath req = hd (reqArgs req)"
    and "reqDir req = WorkingDir cfg"
    and "reqTimeoutSeconds req = effectiveTimeout (TimeoutSeconds a)"
  using assms
  by (auto simp: prepareRun_def Let_def
           split: sum.splits list.splits if_splits)

lemma prepareRun_errors:
  assumes "prepareRun w f a = Inl (ExtraArgsError e)"
  shows "ExtraArgs a \<noteq> []"
  using assms
  by (auto simp: prepareRun_def Let_def validateCommand_eq
           dest: loadConfig_errors validateEnv_errors
           split: sum.splits list.splits if_splits)

lemma prepareRun_total:
  assumes "loadConfig w f = Inr (cfg, p)"
    and "\<forall>x\<in>set (ExtraArgs a). TrimSpace x \<noteq> []"
    and "validateEnv (ArgsEnv a) = Inr runEnv"
  shows "\<exists>req. prepareRun w f a = Inr (cfg, p, req)
           \<and> reqArgs req = Command cfg @ map TrimSpace (ExtraArgs a)"
  using assms loadConfig_Inr(3) [OF assms(1)]
  by (auto simp: prepareRun_def Let_def validateCommand_eq split: list.splits)

lemma classify_keeps:
  "resCommand (classify t wi r) = resCommand r"
  "resConfigPath (classify t wi r) = resConfigPath r"
  by (auto simp: classify_def Let_def split: option.splits wait_error.splits)

lemma run_of_prepareRun:
  assumes "prepareRun w f a = Inr (cfg, p, req)"
  shows "\<exists>tr rr. run w f a = Inr (req, tr, rr) \<and> resCommand rr = reqArgs req"
  using assms
  by (auto simp: run_def Let_def startFailure_def classify_keeps split: proc_outcome.splits)

lemma run_Inr:
  assumes "run w f a = Inr (req, tr, rr)"
  shows "\<exists>cfg p. prepareRun w f a = Inr (cfg, p, req)"
  using assms
  by (auto simp: run_def Let_def split: sum.splits proc_outcome.splits)

lemma run_Inl: "run w f a = Inl e \<Longrightarrow> prepareRun w f a = Inl e"
  by (auto simp: run_def Let_def split: sum.splits proc_outcome.splits)

lemma childGetenv_append:
  "childGetenv key (xs @ ys) =
     (case childGetenv key ys of Some v \<Rightarrow> Some v | None \<Rightarrow> childGetenv key xs)"
  by (induction xs) (auto split: option.splits)

lemma registered_file:
  assumes "register w f a = (f', Inr (tr, res))"
  shows "\<exists>cfg. f' (regConfigPath res) = Some (ConfigJSON cfg)
           \<and> validateCommand (Command cfg) = Inr (Command cfg)
           \<and> validateEnv (Env cfg) = Inr (Env cfg)
           \<and> Command cfg = regCommand res \<and> Env cfg = regEnv res
           \<and> WorkingDir cfg = regWorkingDir res \<and> UpdatedAt cfg = regUpdatedAt res"
  using register_success(7) [OF assms]
        validateCommand_fixed [OF register_success(2) [OF assms]]
        validateEnv_fixed [OF register_success(3) [OF assms]]
  by simp

lemma run_started:
  assumes "prepareRun w f a = Inr (cfg, p, req)" and "spawn w req = Started wi"
  shows "run w f a =
           Inr (req,
                toolResultOf (reqTimeoutSeconds req)
                  (classify (reqTimeoutSeconds req) wi
                     \<lparr>resConfigPath = p, resCommand = reqArgs req,
                      resWorkingDir = WorkingDir cfg, ExitCode = 0,
                      DurationMs = elapsedMs wi, Stdout = outStdout wi,
                      Stderr = outStderr wi, Success = True, TimedOut = False,
                      Error = [], resUpdatedAt = UpdatedAt cfg\<rparr>),
                classify (reqTimeoutSeconds req) wi
                  \<lparr>resConfigPath = p, resCommand = reqArgs req,
                   resWorkingDir = WorkingDir cfg, ExitCode = 0,
                   DurationMs = elapsedMs wi, Stdout = outStdout wi,
                   Stderr = outStderr wi, Success = True, TimedOut = False,
                   Error = [], resUpdatedAt = UpdatedAt cfg\<rparr>)"
  using assms by (simp add: run_def Let_def)

lemma run_not_started:
  assumes "prepareRun w f a = Inr (cfg, p, req)" and "spawn w req = StartFailed msg ms"
  shows "run w f a = Inr (req, startFailure p (reqArgs req) cfg msg ms)"
  using assms by (simp add: run_def)

lemma classify_timeout:
  assumes "waitErr wi = Some err" and "deadlineExceeded wi"
  shows "TimedOut (classify t wi r)" and "\<not> Success (classify t wi r)"
    and "ExitCode (classify t wi r) = (case err of ExitError code \<Rightarrow> code | OtherError _ \<Rightarrow> - 1)"
    and "Error (classify t wi r) = ''timed out after '' @ itoa t @ '' seconds''"
  using assms by (auto simp: classify_def Let_def split: wait_error.splits)

lemma classify_other_error:
  assumes "waitErr wi = Some (OtherError msg)" and "msg \<noteq> []"
  shows "ExitCode (classify t wi r) = - 1" and "Error (classify t wi r) \<noteq> []"
  using assms by (auto simp: classify_def Let_def)

lemma effectiveTimeout_eq:
  "effectiveTimeout t = (if 0 < t then t else 600)"
  by (simp add: effectiveTimeout_def defaultTimeoutSeconds_def)

section \<open>The concrete system, evaluated\<close>

lemma demo_registration:
  "register demoOS demoFS demoRegister
     = (registeredFS, Inr (\<lparr>IsError = False, Text = registeredMessage\<rparr>, demoResult))"
proof -
  have "snd (register demoOS demoFS demoRegister)
          = Inr (\<lparr>IsError = False, Text = registeredMessage\<rparr>, demoResult)"
    by code_simp
  then show ?thesis
    by (simp add: registeredFS_def prod_eq_iff)
qed

lemma demo_prepareRun:
  "prepareRun demoOS registeredFS demoRun = Inr (demoStored, ''/cfg/command.json'', demoRequest)"
  by code_simp

lemma demo_plain_prepareRun:
  "prepareRun demoOS missingFS plainRun = Inr (missingStored, ''/cfg/command.json'', missingRequest)"
  by code_simp

section \<open>The claims about the registrar\<close>

text \<open>
  Claim C1, as amended. When the persistence step of a registration fails with an
  IOError: after a failed write of the temporary file, the configuration path still
  holds what it held before; after a failed rename and a failed retry, the
  configuration path holds nothing new or partial, namely nothing at all when the
  fallback removed the previous file, and the previous contents when that removal
  failed, and the temporary file is gone when its removal succeeded.
\<close>

theorem persistence_failure:
  assumes "register w f a = (f', Inl e)" and "isIOError e" and "configPath w = Inr p"
  shows "(e = WriteTempFailed \<longrightarrow> f' p = f p)
       \<and> (e = MoveFailed \<longrightarrow>
            f' p = (if removeDestOk (faults w) then None else f p)
            \<and> (removeTmpOk (faults w) \<longrightarrow> f' (p @ ''.tmp'') = None))"
proof -
  from register_failure [OF assms(1)] assms(2,3)
  obtain cfg where "writeConfig (faults w) p cfg f = (Some e, f')"
    by (auto dest: validateCommand_errors validateEnv_errors)
  from writeConfig_fails [OF this] show ?thesis
    by auto
qed

text \<open>
  An instance: the renames fail and the previous file cannot be removed either; the
  previous configuration stays and the temporary file is removed.
\<close>

theorem persistence_failure_witness:
  "snd (register (demoOS\<lparr>faults := lockedFaults\<rparr>) demoFS demoRegister) = Inl MoveFailed
   \<and> fst (register (demoOS\<lparr>faults := lockedFaults\<rparr>) demoFS demoRegister) ''/cfg/command.json''
       = Some (ConfigJSON oldConfig)
   \<and> fst (register (demoOS\<lparr>faults := lockedFaults\<rparr>) demoFS demoRegister) ''/cfg/command.json.tmp''
       = None"
proof -
  let ?w = "demoOS\<lparr>faults := lockedFaults\<rparr>"
  obtain f' where f': "f' = fst (register ?w demoFS demoRegister)" by simp
  have e: "snd (register ?w demoFS demoRegister) = Inl MoveFailed"
    by code_simp
  with f' have reg: "register ?w demoFS demoRegister = (f', Inl MoveFailed)"
    by (simp add: prod_eq_iff)
  have p: "configPath ?w = Inr ''/cfg/command.json''"
    by code_simp
  have io: "isIOError MoveFailed" by simp
  have flags: "\<not> removeDestOk (faults ?w)" "removeTmpOk (faults ?w)"
    by (simp_all add: lockedFaults_def renameFaults_def noFaults_def)
  have old: "demoFS ''/cfg/command.json'' = Some (ConfigJSON oldConfig)"
    by (simp add: demoFS_def)
  from persistence_failure [OF reg io p] flags old e f' show ?thesis
    by simp
qed

text \<open>
  The claim as first stated, that the previous configuration file is always left with
  its contents, fails: when both renames fail and the removal in between succeeds, the
  registration reports the error and the previous file is gone.
\<close>

theorem persistence_failure_counterexample:
  "snd (register (demoOS\<lparr>faults := renameFaults\<rparr>) demoFS demoRegister) = Inl MoveFailed
   \<and> isIOError MoveFailed
   \<and> demoFS ''/cfg/command.json'' = Some (ConfigJSON oldConfig)
   \<and> fst (register (demoOS\<lparr>faults := renameFaults\<rparr>) demoFS demoRegister) ''/cfg/command.json''
       = None"
  by code_simp

text \<open>
  Claim C8, as amended. A registration fails with one of the two errors of the command
  validator exactly when the command is empty or has an element that is blank after
  trimming; no validation error, of the command, the environment or the working
  directory, writes a file; and on success the command persisted and echoed is the
  input trimmed element by element, of the same length and in the same order.
\<close>

theorem register_command_validation:
  "((snd (register w f a) = Inl EmptyCommand \<or> snd (register w f a) = Inl BlankCommandEntry)
      \<longleftrightarrow> (argCommand a = [] \<or> (\<exists>part\<in>set (argCommand a). TrimSpace part = [])))
   \<and> (\<forall>e. snd (register w f a) = Inl e \<and> isValidationError e \<longrightarrow> fst (register w f a) = f)
   \<and> (\<forall>f' tr res. register w f a = (f', Inr (tr, res)) \<longrightarrow>
         regCommand res = map TrimSpace (argCommand a)
         \<and> length (regCommand res) = length (argCommand a)
         \<and> (\<exists>cfg. f' (regConfigPath res) = Some (ConfigJSON cfg)
                \<and> Command cfg = map TrimSpace (argCommand a)))"
proof (intro conjI allI impI)
  obtain f' r where reg: "register w f a = (f', r)"
    by (cases "register w f a")
  show "(snd (register w f a) = Inl EmptyCommand \<or> snd (register w f a) = Inl BlankCommandEntry)
      \<longleftrightarrow> (argCommand a = [] \<or> (\<exists>part\<in>set (argCommand a). TrimSpace part = []))"
  proof
    assume "snd (register w f a) = Inl EmptyCommand \<or> snd (register w f a) = Inl BlankCommandEntry"
    then obtain e where e: "register w f a = (f', Inl e)" "e = EmptyCommand \<or> e = BlankCommandEntry"
      using reg by auto
    from register_failure [OF e(1)] e(2) have "validateCommand (argCommand a) = Inl e"
      by (auto dest: validateEnv_errors configPath_errors writeConfig_errors)
    then show "argCommand a = [] \<or> (\<exists>part\<in>set (argCommand a). TrimSpace part = [])"
      by (auto simp: validateCommand_eq split: if_splits)
  next
    assume "argCommand a = [] \<or> (\<exists>part\<in>set (argCommand a). TrimSpace part = [])"
    then have "validateCommand (argCommand a) = Inl EmptyCommand
             \<or> validateCommand (argCommand a) = Inl BlankCommandEntry"
      by (auto simp: validateCommand_eq)
    then show "snd (register w f a) = Inl EmptyCommand \<or> snd (register w f a) = Inl BlankCommandEntry"
      by (auto simp: register_def)
  qed
next
  fix e
  assume "snd (register w f a) = Inl e \<and> isValidationError e"
  moreover obtain f' where "register w f a = (f', snd (register w f a))"
    by (cases "register w f a") auto
  ultimately have reg: "register w f a = (f', Inl e)" and v: "isValidationError e"
    by auto
  from register_failure [OF reg] v have "f' = f"
    by (auto dest: configPath_errors writeConfig_errors isIOError_not_validation)
  with reg show "fst (register w f a) = f" by simp
next
  fix f' tr res
  assume reg: "register w f a = (f', Inr (tr, res))"
  from register_success(2) [OF reg] show c: "regCommand res = map TrimSpace (argCommand a)"
    by (auto simp: validateCommand_eq split: if_splits)
  then show "length (regCommand res) = length (argCommand a)" by simp
  from register_success(7) [OF reg] c
  show "\<exists>cfg. f' (regConfigPath res) = Some (ConfigJSON cfg)
                \<and> Command cfg = map TrimSpace (argCommand a)"
    by simp
qed

text \<open>An instance of each side: a blank second element, and a registration that succeeds.\<close>

theorem register_command_validation_witness:
  "snd (register demoOS demoFS (demoRegister\<lparr>argCommand := [''go'', ''  '']\<rparr>)) = Inl BlankCommandEntry
   \<and> (\<exists>f' tr res. register demoOS demoFS demoRegister = (f', Inr (tr, res))
         \<and> regCommand res = [''go'', ''test''])"
proof
  let ?a = "demoRegister\<lparr>argCommand := [''go'', ''  '']\<rparr>"
  have "argCommand ?a = [] \<or> (\<exists>part\<in>set (argCommand ?a). TrimSpace part = [])"
    by code_simp
  with register_command_validation [of demoOS demoFS ?a]
  have "snd (register demoOS demoFS ?a) = Inl EmptyCommand
      \<or> snd (register demoOS demoFS ?a) = Inl BlankCommandEntry"
    by blast
  moreover have "snd (register demoOS demoFS ?a) \<noteq> Inl EmptyCommand"
    by code_simp
  ultimately show "snd (register demoOS demoFS ?a) = Inl BlankCommandEntry"
    by blast
next
  have "\<not> isl (snd (register demoOS demoFS demoRegister))"
    by code_simp
  then obtain f' tr res where reg: "register demoOS demoFS demoRegister = (f', Inr (tr, res))"
    by (cases "register demoOS demoFS demoRegister"; cases "snd (register demoOS demoFS demoRegister)") auto
  with register_command_validation [of demoOS demoFS demoRegister]
  have "regCommand res = map TrimSpace (argCommand demoRegister)"
    by blast
  also have "\<dots> = [''go'', ''test'']"
    by code_simp
  finally show "\<exists>f' tr res. register demoOS demoFS demoRegister = (f', Inr (tr, res))
         \<and> regCommand res = [''go'', ''test'']"
    using reg by blast
qed

text \<open>
  The claim as first stated, that a validation error occurs only for such a command,
  fails: a well-formed command with a malformed environment entry is rejected with a
  validation error as well.
\<close>

theorem register_validation_error_counterexample:
  "snd (register demoOS demoFS badEnvRegister) = Inl (BadEnvEntry ''novalue'')
   \<and> isValidationError (BadEnvEntry ''novalue'')
   \<and> argCommand badEnvRegister = [''echo'']
   \<and> TrimSpace ''echo'' \<noteq> []"
  by code_simp

section \<open>The claims about the registrar and the verifier together\<close>

text \<open>
  Claim C2. After a successful registration the configuration file holds a document
  that decodes to a \<open>storedConfig\<close> whose command and environment pass the verifier's
  validators unchanged; a verifier that resolves the same path, reads the file as
  written and finds the working directory (when one is set) still a directory loads it
  without error, and loads exactly what was registered.
\<close>

theorem registered_config_loads:
  assumes "register w f a = (f', Inr (tr, res))"
    and "configPath v = Inr (regConfigPath res)"
    and "g (regConfigPath res) = f' (regConfigPath res)"
    and "regWorkingDir res = [] \<or> stat v (regWorkingDir res) = StatDir"
  shows "\<exists>cfg. f' (regConfigPath res) = Some (ConfigJSON cfg)
           \<and> Unmarshal (ConfigJSON cfg) = Inr cfg
           \<and> validateCommand (Command cfg) = Inr (Command cfg)
           \<and> validateEnv (Env cfg) = Inr (Env cfg)
           \<and> loadConfig v g = Inr (cfg, regConfigPath res)
           \<and> Command cfg = regCommand res \<and> Env cfg = regEnv res
           \<and> WorkingDir cfg = regWorkingDir res"
proof -
  from registered_file [OF assms(1)] obtain cfg where
    stored: "f' (regConfigPath res) = Some (ConfigJSON cfg)"
    and c: "validateCommand (Command cfg) = Inr (Command cfg)"
    and e: "validateEnv (Env cfg) = Inr (Env cfg)"
    and eq: "Command cfg = regCommand res" "Env cfg = regEnv res"
            "WorkingDir cfg = regWorkingDir res"
    by blast
  from assms(3) stored have "g (regConfigPath res) = Some (ConfigJSON cfg)"
    by simp
  from loadConfig_fixed [where g = g, OF assms(2) this c e] assms(4) eq(3)
  have "loadConfig v g = Inr (cfg, regConfigPath res)"
    by simp
  with stored c e eq show ?thesis
    by simp
qed

text \<open>
  An instance: the verifier loads what the demonstration registration wrote.
\<close>

theorem registered_config_loads_witness:
  "\<exists>cfg. loadConfig demoOS registeredFS = Inr (cfg, ''/cfg/command.json'')
      \<and> Command cfg = [''go'', ''test''] \<and> Env cfg = [''MODE=config'', ''K=a=b'']"
proof -
  have p: "configPath demoOS = Inr (regConfigPath demoResult)"
    by code_simp
  have d: "regWorkingDir demoResult = [] \<or> stat demoOS (regWorkingDir demoResult) = StatDir"
    by code_simp
  from registered_config_loads [where g = registeredFS, OF demo_registration p refl d]
  show ?thesis
    by (auto simp: demoResult_def)
qed

text \<open>
  Claim C3. After a registration, a run whose extra arguments and environment are
  valid starts exactly the registered command (the input of the registration, trimmed
  element by element) followed by the trimmed extra arguments in the caller's order;
  the executable is its first element, the result echoes the same sequence, and without
  extra arguments the command started is the registered one.
\<close>

theorem run_executes_registered_command:
  assumes "register w f a = (f', Inr (tr, res))"
    and "configPath v = Inr (regConfigPath res)"
    and "g (regConfigPath res) = f' (regConfigPath res)"
    and "regWorkingDir res = [] \<or> stat v (regWorkingDir res) = StatDir"
    and "\<forall>x\<in>set (ExtraArgs ra). TrimSpace x \<noteq> []"
    and "validateEnv (ArgsEnv ra) = Inr runEnv"
  shows "\<exists>req tr' rr. run v g ra = Inr (req, tr', rr)
           \<and> reqArgs req = regCommand res @ map TrimSpace (ExtraArgs ra)
           \<and> regCommand res = map TrimSpace (argCommand a)
           \<and> reqPath req = hd (regCommand res)
           \<and> resCommand rr = reqArgs req
           \<and> (ExtraArgs ra = [] \<longrightarrow> reqArgs req = regCommand res)"
proof -
  from registered_file [OF assms(1)] obtain cfg where
    stored: "f' (regConfigPath res) = Some (ConfigJSON cfg)"
    and c: "validateCommand (Command cfg) = Inr (Command cfg)"
    and e: "validateEnv (Env cfg) = Inr (Env cfg)"
    and eq: "Command cfg = regCommand res" "WorkingDir cfg = regWorkingDir res"
    by blast
  from assms(3) stored have "g (regConfigPath res) = Some (ConfigJSON cfg)"
    by simp
  from loadConfig_fixed [where g = g, OF assms(2) this c e] assms(4) eq(2)
  have load: "loadConfig v g = Inr (cfg, regConfigPath res)"
    by simp
  from prepareRun_total [OF load assms(5,6)] obtain req where
    prep: "prepareRun v g ra = Inr (cfg, regConfigPath res, req)"
    and args: "reqArgs req = Command cfg @ map TrimSpace (ExtraArgs ra)"
    by blast
  from run_of_prepareRun [OF prep] obtain tr' rr where
    run: "run v g ra = Inr (req, tr', rr)" and echo: "resCommand rr = reqArgs req"
    by blast
  from loadConfig_Inr(3) [OF load] have ne: "Command cfg \<noteq> []" .
  from prepareRun_Inr(5) [OF prep] args ne have "reqPath req = hd (Command cfg)"
    by simp
  moreover from register_success(2) [OF assms(1)]
  have "regCommand res = map TrimSpace (argCommand a)"
    by (auto simp: validateCommand_eq split: if_splits)
  ultimately show ?thesis
    using run echo args eq(1) by auto
qed

text \<open>
  An instance: \<open>go test\<close> registered, \<open>-v\<close> added at run time.
\<close>

theorem run_executes_registered_command_witness:
  "\<exists>req tr rr. run demoOS registeredFS demoRun = Inr (req, tr, rr)
      \<and> reqArgs req = [''go'', ''test'', ''-v''] \<and> reqPath req = ''go''"
proof -
  have p: "configPath demoOS = Inr (regConfigPath demoResult)"
    by code_simp
  have d: "regWorkingDir demoResult = [] \<or> stat demoOS (regWorkingDir demoResult) = StatDir"
    by code_simp
  have x: "\<forall>x\<in>set (ExtraArgs demoRun). TrimSpace x \<noteq> []"
    by code_simp
  have e: "validateEnv (ArgsEnv demoRun) = Inr [''MODE=run'']"
    by code_simp
  have t: "map TrimSpace (ExtraArgs demoRun) = [''-v'']"
    by code_simp
  from run_executes_registered_command [where g = registeredFS, OF demo_registration p refl d x e] t
  show ?thesis
    by (auto simp: demoResult_def)
qed

section \<open>The claims about the verifier\<close>

text \<open>
  Claim C4. When the command was started, \<open>cmd.Wait\<close> returns an error and the
  deadline of the run has passed, the result is marked timed out and unsuccessful, its
  exit code is the one the runtime reports in the \<open>ExitError\<close> of the killed process
  (and \<open>-1\<close> when the error is of another kind), and its error text names the timeout
  in force, in seconds: the caller's when positive, 600 otherwise.
\<close>

theorem run_timeout:
  assumes "prepareRun w f a = Inr (cfg, p, req)"
    and "spawn w req = Started wi"
    and "waitErr wi = Some err"
    and "deadlineExceeded wi"
  shows "\<exists>tr rr. run w f a = Inr (req, tr, rr)
           \<and> TimedOut rr \<and> \<not> Success rr
           \<and> ExitCode rr = (case err of ExitError code \<Rightarrow> code | OtherError _ \<Rightarrow> - 1)
           \<and> Error rr = ''timed out after ''
                 @ itoa (if 0 < TimeoutSeconds a then TimeoutSeconds a else 600) @ '' seconds''
           \<and> reqTimeoutSeconds req = (if 0 < TimeoutSeconds a then TimeoutSeconds a else 600)"
proof -
  from prepareRun_Inr(7) [OF assms(1)]
  have t: "reqTimeoutSeconds req = (if 0 < TimeoutSeconds a then TimeoutSeconds a else 600)"
    by (simp add: effectiveTimeout_eq)
  from run_started [OF assms(1,2)] classify_timeout [OF assms(3,4)] t
  show ?thesis
    by simp
qed

text \<open>
  An instance: a two-second timeout, and a process killed at the deadline.
\<close>

theorem run_timeout_witness:
  "\<exists>tr rr. run demoOS registeredFS demoRun = Inr (demoRequest, tr, rr)
      \<and> TimedOut rr \<and> \<not> Success rr \<and> ExitCode rr = - 1
      \<and> Error rr = ''timed out after 2 seconds''"
proof -
  let ?wi = "\<lparr>waitErr = Some (ExitError (- 1)), processState = Some (- 1),
              deadlineExceeded = True, outStdout = ''partial'', outStderr = [],
              elapsedMs = 2000\<rparr>"
  have s: "spawn demoOS demoRequest = Started ?wi"
    by code_simp
  have e: "waitErr ?wi = Some (ExitError (- 1))" and d: "deadlineExceeded ?wi"
    by simp_all
  have t: "TimeoutSeconds demoRun = 2"
    by (simp add: demoRun_def)
  have i: "itoa 2 = ''2''"
    by code_simp
  from run_timeout [OF demo_prepareRun s e d] t i
  show ?thesis
    by auto
qed

text \<open>
  Claim C5. When the command cannot be started, the handler still returns a result and
  no error: exit code \<open>-1\<close>, not successful, not timed out, the error text of the
  failure (non-empty, as the messages of \<open>os/exec\<close> are), and a tool result flagged as
  an error.
\<close>

theorem run_start_failure:
  assumes "prepareRun w f a = Inr (cfg, p, req)"
    and "spawn w req = StartFailed msg ms"
    and "msg \<noteq> []"
  shows "\<exists>tr rr. run w f a = Inr (req, tr, rr)
           \<and> ExitCode rr = - 1 \<and> \<not> Success rr \<and> \<not> TimedOut rr
           \<and> Error rr = msg \<and> Error rr \<noteq> [] \<and> IsError tr"
  using run_not_started [OF assms(1,2)] assms(3)
  by (simp add: startFailure_def)

text \<open>
  An instance: the spec's scenario of a registered command that does not exist.
\<close>

theorem run_start_failure_witness:
  "\<exists>tr rr. run demoOS missingFS plainRun = Inr (missingRequest, tr, rr)
      \<and> ExitCode rr = - 1 \<and> \<not> Success rr \<and> Error rr = ''exec: not found'' \<and> IsError tr"
proof -
  have s: "spawn demoOS missingRequest = StartFailed ''exec: not found'' 1"
    by code_simp
  have m: "''exec: not found'' \<noteq> []"
    by simp
  from run_start_failure [OF demo_plain_prepareRun s m]
  show ?thesis
    by auto
qed

text \<open>
  Claim C9. Every result with exit code \<open>-1\<close> and a non-empty error text comes with
  a tool result flagged as an error. After a start the flag is set exactly in that case,
  so a timed-out run whose killed process reports \<open>-1\<close> and a wait that fails with
  another error are flagged, as a start failure always is.
\<close>

theorem error_flag:
  assumes "run w f a = Inr (req, tr, rr)"
  shows "(ExitCode rr = - 1 \<and> Error rr \<noteq> [] \<longrightarrow> IsError tr)
       \<and> (\<forall>wi. spawn w req = Started wi \<longrightarrow>
            (IsError tr \<longleftrightarrow> ExitCode rr = - 1 \<and> Error rr \<noteq> [])
            \<and> (deadlineExceeded wi \<and> waitErr wi = Some (ExitError (- 1)) \<longrightarrow> IsError tr)
            \<and> (\<forall>msg. waitErr wi = Some (OtherError msg) \<and> msg \<noteq> [] \<longrightarrow> IsError tr))
       \<and> (\<forall>msg ms. spawn w req = StartFailed msg ms \<longrightarrow> IsError tr)"
proof -
  from run_Inr [OF assms] obtain cfg p where prep: "prepareRun w f a = Inr (cfg, p, req)"
    by blast
  have started: "(IsError tr \<longleftrightarrow> ExitCode rr = - 1 \<and> Error rr \<noteq> [])
            \<and> (deadlineExceeded wi \<and> waitErr wi = Some (ExitError (- 1)) \<longrightarrow> IsError tr)
            \<and> (\<forall>msg. waitErr wi = Some (OtherError msg) \<and> msg \<noteq> [] \<longrightarrow> IsError tr)"
    if s: "spawn w req = Started wi" for wi
  proof -
    let ?r = "classify (reqTimeoutSeconds req) wi
                \<lparr>resConfigPath = p, resCommand = reqArgs req,
                 resWorkingDir = WorkingDir cfg, ExitCode = 0,
                 DurationMs = elapsedMs wi, Stdout = outStdout wi,
                 Stderr = outStderr wi, Success = True, TimedOut = False,
                 Error = [], resUpdatedAt = UpdatedAt cfg\<rparr>"
    from run_started [OF prep s] assms
    have rr: "rr = ?r" and tr: "tr = toolResultOf (reqTimeoutSeconds req) ?r"
      by simp_all
    from tr rr have flag: "IsError tr \<longleftrightarrow> ExitCode rr = - 1 \<and> Error rr \<noteq> []"
      by (simp add: toolResultOf_def)
    moreover have "IsError tr"
      if "deadlineExceeded wi \<and> waitErr wi = Some (ExitError (- 1))"
      using that flag classify_timeout(3,4) [of wi "ExitError (- 1)" "reqTimeoutSeconds req"]
      unfolding rr by simp
    moreover have "IsError tr" if "waitErr wi = Some (OtherError msg) \<and> msg \<noteq> []" for msg
      using that flag classify_other_error [of wi msg "reqTimeoutSeconds req"]
      unfolding rr by simp
    ultimately show ?thesis
      by blast
  qed
  have failed: "IsError tr" if s: "spawn w req = StartFailed msg ms" for msg ms
    using run_not_started [OF prep s] assms by (simp add: startFailure_def)
  from started failed show ?thesis
    by (cases "spawn w req") auto
qed

text \<open>
  An instance: the run killed at its deadline is flagged.
\<close>

theorem error_flag_witness:
  "\<exists>tr rr. run demoOS registeredFS demoRun = Inr (demoRequest, tr, rr)
      \<and> ExitCode rr = - 1 \<and> IsError tr"
proof -
  let ?wi = "\<lparr>waitErr = Some (ExitError (- 1)), processState = Some (- 1),
              deadlineExceeded = True, outStdout = ''partial'', outStderr = [],
              elapsedMs = 2000\<rparr>"
  have s: "spawn demoOS demoRequest = Started ?wi"
    by code_simp
  from run_started [OF demo_prepareRun s] obtain tr rr where
    run: "run demoOS registeredFS demoRun = Inr (demoRequest, tr, rr)"
    and rr: "rr = classify (reqTimeoutSeconds demoRequest) ?wi
               \<lparr>resConfigPath = ''/cfg/command.json'', resCommand = reqArgs demoRequest,
                resWorkingDir = WorkingDir demoStored, ExitCode = 0,
                DurationMs = elapsedMs ?wi, Stdout = outStdout ?wi,
                Stderr = outStderr ?wi, Success = True, TimedOut = False,
                Error = [], resUpdatedAt = UpdatedAt demoStored\<rparr>"
    by simp
  from rr have code: "ExitCode rr = - 1"
    by (simp add: classify_def)
  have d: "deadlineExceeded ?wi \<and> waitErr ?wi = Some (ExitError (- 1))"
    by simp
  from error_flag [OF run] s d have "IsError tr"
    by blast
  with run code show ?thesis
    by blast
qed

text \<open>
  Claim C10. With no extra arguments the shared validator rejects the empty list, yet
  the run never reports an extra-arguments error; once the configuration loads and the
  per-run environment is valid, it starts the stored command unchanged.
\<close>

theorem run_without_extra_args:
  assumes "ExtraArgs a = []"
  shows "validateCommand (ExtraArgs a) = Inl EmptyCommand
       \<and> (\<forall>e. run w f a \<noteq> Inl (ExtraArgsError e))
       \<and> (\<forall>cfg p runEnv. loadConfig w f = Inr (cfg, p) \<and> validateEnv (ArgsEnv a) = Inr runEnv
            \<longrightarrow> (\<exists>req tr rr. run w f a = Inr (req, tr, rr)
                   \<and> reqArgs req = Command cfg \<and> resCommand rr = Command cfg))"
proof (intro conjI allI impI)
  from assms show "validateCommand (ExtraArgs a) = Inl EmptyCommand"
    by (simp add: validateCommand_eq)
next
  fix e
  show "run w f a \<noteq> Inl (ExtraArgsError e)"
  proof
    assume "run w f a = Inl (ExtraArgsError e)"
    then have "prepareRun w f a = Inl (ExtraArgsError e)"
      by (rule run_Inl)
    then have "ExtraArgs a \<noteq> []"
      by (rule prepareRun_errors)
    with assms show False by simp
  qed
next
  fix cfg p runEnv
  assume "loadConfig w f = Inr (cfg, p) \<and> validateEnv (ArgsEnv a) = Inr runEnv"
  then have load: "loadConfig w f = Inr (cfg, p)"
    and env: "validateEnv (ArgsEnv a) = Inr runEnv"
    by simp_all
  from assms have none: "\<forall>x\<in>set (ExtraArgs a). TrimSpace x \<noteq> []"
    by simp
  from prepareRun_total [OF load none env] assms obtain req where
    prep: "prepareRun w f a = Inr (cfg, p, req)" and args: "reqArgs req = Command cfg"
    by auto
  from run_of_prepareRun [OF prep] args
  show "\<exists>req tr rr. run w f a = Inr (req, tr, rr)
          \<and> reqArgs req = Command cfg \<and> resCommand rr = Command cfg"
    by auto
qed

text \<open>
  An instance: a run with no arguments at all.
\<close>

theorem run_without_extra_args_witness:
  "\<exists>req tr rr. run demoOS missingFS plainRun = Inr (req, tr, rr)
      \<and> reqArgs req = [''false_command_that_does_not_exist'']"
proof -
  have x: "ExtraArgs plainRun = []"
    by (simp add: plainRun_def)
  have l: "loadConfig demoOS missingFS = Inr (missingStored, ''/cfg/command.json'')"
    by code_simp
  have e: "validateEnv (ArgsEnv plainRun) = Inr []"
    by code_simp
  from run_without_extra_args [OF x, of demoOS missingFS] l e
  have "\<exists>req tr rr. run demoOS missingFS plainRun = Inr (req, tr, rr)
          \<and> reqArgs req = Command missingStored \<and> resCommand rr = Command missingStored"
    by blast
  then show ?thesis
    by (auto simp: missingStored_def)
qed


text \<open>
  Claim C6. For every run that reaches the start of the command, the environment of the
  child is the parent's environment, then the environment entries of the loaded
  configuration, then the caller's validated entries, in that order; a variable read
  from it takes the caller's value when the caller sets it, else the configuration's,
  else the parent's; and when the file is the one a registration wrote, the
  configuration's entries are the registered ones (the registration's input, trimmed,
  blanks dropped), unchanged and in the same order.
\<close>

theorem run_environment:
  assumes "run w f a = Inr (req, tr, rr)"
  shows "\<exists>cfg p runEnv. loadConfig w f = Inr (cfg, p)
           \<and> validateEnv (ArgsEnv a) = Inr runEnv
           \<and> childEnv w req = environ w @ Env cfg @ runEnv
           \<and> (\<forall>key. childGetenv key (childEnv w req) =
                 (case childGetenv key runEnv of
                    Some v \<Rightarrow> Some v
                  | None \<Rightarrow> (case childGetenv key (Env cfg) of
                               Some v \<Rightarrow> Some v
                             | None \<Rightarrow> childGetenv key (environ w))))
           \<and> (\<forall>w0 f0 ra f' tr0 res.
                 register w0 f0 ra = (f', Inr (tr0, res)) \<and> regConfigPath res = p
                   \<and> f p = f' p
                 \<longrightarrow> Env cfg = regEnv res
                     \<and> regEnv res = filter (\<lambda>t. t \<noteq> []) (map TrimSpace (argEnv ra)))"
proof -
  from run_Inr [OF assms] obtain cfg p where prep: "prepareRun w f a = Inr (cfg, p, req)"
    by blast
  note load = prepareRun_Inr(1) [OF prep]
  from prepareRun_Inr(3) [OF prep] obtain runEnv where
    env: "validateEnv (ArgsEnv a) = Inr runEnv"
    by blast
  from prepareRun_Inr(4) [OF prep env]
  have child: "childEnv w req = environ w @ Env cfg @ runEnv"
    by (simp add: childEnv_def)
  have look: "childGetenv key (childEnv w req) =
                 (case childGetenv key runEnv of
                    Some v \<Rightarrow> Some v
                  | None \<Rightarrow> (case childGetenv key (Env cfg) of
                               Some v \<Rightarrow> Some v
                             | None \<Rightarrow> childGetenv key (environ w)))" for key
    unfolding child by (simp add: childGetenv_append split: option.splits)
  have verbatim: "Env cfg = regEnv res
        \<and> regEnv res = filter (\<lambda>t. t \<noteq> []) (map TrimSpace (argEnv ra))"
    if reg: "register w0 f0 ra = (f', Inr (tr0, res))" and p: "regConfigPath res = p"
      and same: "f p = f' p"
    for w0 f0 ra f' tr0 res
  proof -
    from registered_file [OF reg] p obtain written where
      w: "f' p = Some (ConfigJSON written)" "validateEnv (Env written) = Inr (Env written)"
         "Env written = regEnv res"
      by auto
    from loadConfig_Inr(2) [OF load] obtain stored where
      s: "f p = Some (ConfigJSON stored)" "validateEnv (Env stored) = Inr (Env cfg)"
      by blast
    from w(1) s(1) same have "stored = written"
      by simp
    with w s have "Env cfg = regEnv res"
      by simp
    moreover from register_success(3) [OF reg]
    have "regEnv res = filter (\<lambda>t. t \<noteq> []) (map TrimSpace (argEnv ra))"
      by (auto simp: validateEnv_eq split: option.splits)
    ultimately show ?thesis
      by simp
  qed
  from load env child look verbatim show ?thesis
    by blast
qed

text \<open>
  An instance: \<open>MODE\<close> is set by the parent, the configuration and the caller, and
  the caller's value is the one read.
\<close>

theorem run_environment_witness:
  "\<exists>req tr rr. run demoOS registeredFS demoRun = Inr (req, tr, rr)
      \<and> childEnv demoOS req
          = [''PATH=/bin'', ''MODE=parent'', ''MODE=config'', ''K=a=b'', ''MODE=run'']
      \<and> childGetenv ''MODE'' (childEnv demoOS req) = Some ''run''
      \<and> childGetenv ''K'' (childEnv demoOS req) = Some ''a=b''
      \<and> childGetenv ''PATH'' (childEnv demoOS req) = Some ''/bin''"
proof -
  from run_of_prepareRun [OF demo_prepareRun] obtain tr rr where
    run: "run demoOS registeredFS demoRun = Inr (demoRequest, tr, rr)"
    by blast
  have l: "loadConfig demoOS registeredFS = Inr (demoStored, ''/cfg/command.json'')"
    by (rule prepareRun_Inr(1) [OF demo_prepareRun])
  have e: "validateEnv (ArgsEnv demoRun) = Inr [''MODE=run'']"
    by code_simp
  from run_environment [OF run] l e
  have child: "childEnv demoOS demoRequest = environ demoOS @ Env demoStored @ [''MODE=run'']"
    by auto
  have "environ demoOS @ Env demoStored @ [''MODE=run'']
          = [''PATH=/bin'', ''MODE=parent'', ''MODE=config'', ''K=a=b'', ''MODE=run'']"
    by (simp add: demoOS_def demoStored_def)
  with child have c: "childEnv demoOS demoRequest
          = [''PATH=/bin'', ''MODE=parent'', ''MODE=config'', ''K=a=b'', ''MODE=run'']"
    by simp
  have "childGetenv ''MODE'' [''PATH=/bin'', ''MODE=parent'', ''MODE=config'', ''K=a=b'', ''MODE=run'']
          = Some ''run''"
    by code_simp
  moreover have "childGetenv ''K'' [''PATH=/bin'', ''MODE=parent'', ''MODE=config'', ''K=a=b'', ''MODE=run'']
          = Some ''a=b''"
    by code_simp
  moreover have "childGetenv ''PATH'' [''PATH=/bin'', ''MODE=parent'', ''MODE=config'', ''K=a=b'', ''MODE=run'']
          = Some ''/bin''"
    by code_simp
  ultimately show ?thesis
    using run c by auto
qed

section \<open>The claim about the shared environment validator\<close>

text \<open>
  Claim C7. \<open>validateEnv\<close> drops every entry that is blank after trimming; it fails,
  naming the first offending entry, when some other entry, trimmed, is not a non-empty
  key, the separator and a value (the entry is cut once, at its first \<open>=\<close>, so the
  value may be empty or contain further separators); otherwise it returns the trimmed
  non-blank entries whole and in their order. The failure is a validation error, and it
  aborts the registration, the load of the configuration and the run alike.
\<close>

theorem validateEnv_spec:
  "validateEnv env =
     (case find (\<lambda>entry. TrimSpace entry \<noteq> [] \<and> \<not> keyValueEntry (TrimSpace entry)) env of
        None \<Rightarrow> Inr (filter (\<lambda>t. t \<noteq> []) (map TrimSpace env))
      | Some entry \<Rightarrow> Inl (BadEnvEntry entry))
   \<and> (\<forall>t. keyValueEntry t \<longleftrightarrow>
           (\<exists>key value. t = key @ ''='' @ value \<and> key \<noteq> [] \<and> CHR ''='' \<notin> set key))
   \<and> (\<forall>entry. isValidationError (BadEnvEntry entry))
   \<and> (\<forall>w f (a::registerArgs) c e. validateCommand (argCommand a) = Inr c \<and> validateEnv (argEnv a) = Inl e
         \<longrightarrow> register w f a = (f, Inl e))
   \<and> (\<forall>w f p stored c e. configPath w = Inr p \<and> f p = Some (ConfigJSON stored)
           \<and> validateCommand (Command stored) = Inr c \<and> validateEnv (Env stored) = Inl e
         \<longrightarrow> loadConfig w f = Inl (InvalidEnvInConfig e))
   \<and> (\<forall>w f (a::runArgs) cfg p e. loadConfig w f = Inr (cfg, p)
           \<and> (\<forall>x\<in>set (ExtraArgs a). TrimSpace x \<noteq> []) \<and> validateEnv (ArgsEnv a) = Inl e
         \<longrightarrow> run w f a = Inl e)"
proof (intro conjI allI impI)
  show "validateEnv env =
     (case find (\<lambda>entry. TrimSpace entry \<noteq> [] \<and> \<not> keyValueEntry (TrimSpace entry)) env of
        None \<Rightarrow> Inr (filter (\<lambda>t. t \<noteq> []) (map TrimSpace env))
      | Some entry \<Rightarrow> Inl (BadEnvEntry entry))"
    by (rule validateEnv_eq)
next
  fix t
  show "keyValueEntry t \<longleftrightarrow>
           (\<exists>key value. t = key @ ''='' @ value \<and> key \<noteq> [] \<and> CHR ''='' \<notin> set key)"
    by (rule keyValueEntry_iff)
next
  fix entry
  show "isValidationError (BadEnvEntry entry)"
    by simp
next
  fix w f and a :: registerArgs and c e
  assume "validateCommand (argCommand a) = Inr c \<and> validateEnv (argEnv a) = Inl e"
  then show "register w f a = (f, Inl e)"
    by (simp add: register_def)
next
  fix w f p stored c e
  assume "configPath w = Inr p \<and> f p = Some (ConfigJSON stored)
           \<and> validateCommand (Command stored) = Inr c \<and> validateEnv (Env stored) = Inl e"
  then show "loadConfig w f = Inl (InvalidEnvInConfig e)"
    by (simp add: loadConfig_def osReadFile_def)
next
  fix w f and a :: runArgs and cfg p e
  assume h: "loadConfig w f = Inr (cfg, p)
           \<and> (\<forall>x\<in>set (ExtraArgs a). TrimSpace x \<noteq> []) \<and> validateEnv (ArgsEnv a) = Inl e"
  then have "prepareRun w f a = Inl e"
    by (auto simp: prepareRun_def Let_def validateCommand_eq)
  then show "run w f a = Inl e"
    by (simp add: run_def)
qed

text \<open>
  An instance of each outcome.
\<close>

theorem validateEnv_spec_witness:
  "validateEnv ['' A=1 '', ''  '', ''B=x=y'', ''C=''] = Inr [''A=1'', ''B=x=y'', ''C='']
   \<and> validateEnv [''ok=1'', ''=x''] = Inl (BadEnvEntry ''=x'')"
proof
  let ?bad = "\<lambda>entry. TrimSpace entry \<noteq> [] \<and> \<not> keyValueEntry (TrimSpace entry)"
  let ?env = "['' A=1 '', ''  '', ''B=x=y'', ''C='']"
  have none: "find ?bad ?env = None"
    by code_simp
  have kept: "filter (\<lambda>t. t \<noteq> []) (map TrimSpace ?env) = [''A=1'', ''B=x=y'', ''C='']"
    by code_simp
  have "validateEnv ?env =
          (case find ?bad ?env of
             None \<Rightarrow> Inr (filter (\<lambda>t. t \<noteq> []) (map TrimSpace ?env))
           | Some entry \<Rightarrow> Inl (BadEnvEntry entry))"
    using validateEnv_spec [of ?env] by (rule conjunct1)
  then show "validateEnv ?env = Inr [''A=1'', ''B=x=y'', ''C='']"
    by (simp only: none kept option.case)
next
  let ?bad = "\<lambda>entry. TrimSpace entry \<noteq> [] \<and> \<not> keyValueEntry (TrimSpace entry)"
  let ?env = "[''ok=1'', ''=x'']"
  have hit: "find ?bad ?env = Some ''=x''"
    by code_simp
  have "validateEnv ?env =
          (case find ?bad ?env of
             None \<Rightarrow> Inr (filter (\<lambda>t. t \<noteq> []) (map TrimSpace ?env))
           | Some entry \<Rightarrow> Inl (BadEnvEntry entry))"
    using validateEnv_spec [of ?env] by (rule conjunct1)
  then show "validateEnv ?env = Inl (BadEnvEntry ''=x'')"
    by (simp only: hit option.case)
qed

end
